theory Spec2Isabelle
  imports Complex_Main "HOL-Library.Sublist" "HOL-Library.Log_Nat"
begin

section \<open>Data model of AddResourceModal.tsx\<close>

text \<open>
  A number of the program is an IEEE 754 double; it is modelled by its exact value, a
  rational. A field that may be absent (\<open>undefined\<close> or \<open>null\<close>) is an \<open>option\<close>.
  The record \<open>resource\<close> is the type \<open>Resource\<close> of the component: a row of the table
  \<open>resources\<close> together with the two optional fields \<open>allocated\<close> and \<open>available\<close> that the
  component adds. The record \<open>allocation\<close> is a row of the table \<open>resource_allocations\<close>.
\<close>

record resource =
  id' :: string
  name :: string
  type' :: string
  unit' :: string
  quantity :: rat
  cost :: rat
  returnable :: bool
  status :: string
  allocated :: "rat option"
  available :: "rat option"

record allocation =
  alloc_id :: string
  project_id :: string
  resource_id :: string
  alloc_quantity :: "rat option"
  consumed :: bool

section \<open>The arithmetic of the program's numbers\<close>

text \<open>
  The sum and the difference of two doubles are the exact result rounded to the nearest
  double, ties to the even significand. \<open>expo x\<close> is the binary exponent of \<open>x\<close>, the \<open>e\<close>
  with \<open>2^e \<le> |x| < 2^(e+1)\<close>; a double has 53 significant bits, and below \<open>2^-1022\<close> the
  spacing stays at \<open>2^-1074\<close>. The values \<open>Infinity\<close> and \<open>NaN\<close> and the sign of zero are
  not modelled: a result whose magnitude reaches \<open>2^1024\<close> is kept at its rounded value.
  Every number that the program holds is a double, a value that \<open>fl\<close> leaves as it is, and
  a decimal numeral stands for the double nearest to it. Comparisons of doubles are
  comparisons of their values. The threshold of the status test is taken as the exact
  product of the quantity with one fifth.
\<close>

definition round_even :: "rat \<Rightarrow> int" where
  "round_even y =
     (let f = \<lfloor>y\<rfloor>; d = y - of_int f
      in if d < 1 / 2 then f else if 1 / 2 < d then f + 1 else if even f then f else f + 1)"

definition expo :: "rat \<Rightarrow> int" where
  "expo x =
     (case quotient_of \<bar>x\<bar> of
        (p, q) \<Rightarrow> (let e = bitlen p - bitlen q in if 2 powi e \<le> \<bar>x\<bar> then e else e - 1))"

definition fl :: "rat \<Rightarrow> rat" where
  "fl x =
     (if x = 0 then 0
      else (let E = max (expo x - 52) (- 1074)
            in sgn x * of_int (round_even (\<bar>x\<bar> / 2 powi E)) * 2 powi E))"

definition js_add :: "rat \<Rightarrow> rat \<Rightarrow> rat" where
  "js_add a b = fl (a + b)"

definition js_sub :: "rat \<Rightarrow> rat \<Rightarrow> rat" where
  "js_sub a b = fl (a - b)"

text \<open>
  The operator \<open>x || y\<close> on an optional number: \<open>undefined\<close>, \<open>null\<close> and \<open>0\<close> are falsy
  and give \<open>y\<close>, every other number gives itself.
\<close>

definition js_or :: "rat option \<Rightarrow> rat \<Rightarrow> rat" where
  "js_or x y = (case x of None \<Rightarrow> y | Some v \<Rightarrow> if v = 0 then y else v)"

text \<open>The comparison \<open>x > 0\<close> on an optional number: \<open>undefined > 0\<close> is false.\<close>

definition js_positive :: "rat option \<Rightarrow> bool" where
  "js_positive x = (case x of None \<Rightarrow> False | Some v \<Rightarrow> 0 < v)"

section \<open>The availability computation of fetchResources (lines 93 to 126)\<close>

text \<open>The if-chain of lines 106 to 112, on \<open>availableQty\<close> and \<open>resource.quantity\<close>.\<close>

definition stockStatus :: "rat \<Rightarrow> rat \<Rightarrow> string" where
  "stockStatus availableQty qty =
     (if availableQty \<le> 0 then ''Out of Stock''
      else if availableQty < qty * (2 / 10) then ''Low Stock''
      else ''Available'')"

text \<open>
  The filter of lines 94 to 96 and the reduce of lines 97 to 100; \<open>reduce\<close> runs from the
  left with the start value \<open>0\<close>, which is \<open>foldl\<close>.
\<close>

definition allocationsOf :: "allocation list \<Rightarrow> resource \<Rightarrow> allocation list" where
  "allocationsOf allocationsData r =
     filter (\<lambda>alloc. resource_id alloc = id' r \<and> \<not> consumed alloc) allocationsData"

definition allocatedQuantity :: "allocation list \<Rightarrow> resource \<Rightarrow> rat" where
  "allocatedQuantity allocationsData r =
     foldl (\<lambda>sum alloc. js_add sum (js_or (alloc_quantity alloc) 0)) 0
       (allocationsOf allocationsData r)"

definition availableQty :: "allocation list \<Rightarrow> resource \<Rightarrow> rat" where
  "availableQty allocationsData r = js_sub (quantity r) (allocatedQuantity allocationsData r)"

text \<open>The callback of \<open>resourcesData.map\<close>: the spread copies every field of the row.\<close>

definition withAvailability :: "allocation list \<Rightarrow> resource \<Rightarrow> resource" where
  "withAvailability allocationsData r =
     r\<lparr>allocated := Some (allocatedQuantity allocationsData r),
       available := Some (availableQty allocationsData r),
       status := stockStatus (availableQty allocationsData r) (quantity r)\<rparr>"

definition resourcesWithAvailability :: "resource list \<Rightarrow> allocation list \<Rightarrow> resource list" where
  "resourcesWithAvailability resourcesData allocationsData =
     map (withAvailability allocationsData) resourcesData"

definition availableResources :: "resource list \<Rightarrow> allocation list \<Rightarrow> resource list" where
  "availableResources resourcesData allocationsData =
     filter (\<lambda>r. js_positive (available r)) (resourcesWithAvailability resourcesData allocationsData)"

text \<open>
  The specification's wording of the allocated total: the sum of the quantity fields of the
  allocations that reference the resource and are not consumed. The sum is the exact one.
\<close>

definition quantityField :: "allocation \<Rightarrow> rat" where
  "quantityField alloc = (case alloc_quantity alloc of None \<Rightarrow> 0 | Some q \<Rightarrow> q)"

definition spec_allocated :: "resource \<Rightarrow> allocation list \<Rightarrow> rat" where
  "spec_allocated r allocationsData =
     (\<Sum>alloc \<leftarrow> filter (\<lambda>alloc. resource_id alloc = id' r \<and> consumed alloc = False) allocationsData.
        quantityField alloc)"

text \<open>
  A sum or difference stays finite in the program when its exact value is below
  \<open>2^1024 - 2^970\<close> in magnitude; from there on it rounds to \<open>Infinity\<close>, which the model
  does not have. \<open>stays_finite\<close> says that every partial sum of the reduction for a resource
  and the final difference stay finite.
\<close>

definition finite_result :: "rat \<Rightarrow> bool" where
  "finite_result x = (\<bar>x\<bar> < 2 ^ 1024 - 2 ^ 970)"

fun sums_finite :: "rat \<Rightarrow> rat list \<Rightarrow> bool" where
  "sums_finite acc [] = True"
| "sums_finite acc (x # xs) = (finite_result (acc + x) \<and> sums_finite (js_add acc x) xs)"

definition stays_finite :: "resource \<Rightarrow> allocation list \<Rightarrow> bool" where
  "stays_finite r allocationsData =
     (sums_finite 0 (map quantityField (allocationsOf allocationsData r))
      \<and> finite_result (quantity r - allocatedQuantity allocationsData r))"

text \<open>
  The range in which the program's arithmetic is exact: the quantity of the resource and the
  quantities of its outstanding allocations are whole numbers from 0 to \<open>2^53\<close>, and so is
  their exact sum.
\<close>

definition safe_whole :: "rat \<Rightarrow> bool" where
  "safe_whole x = (of_int \<lfloor>x\<rfloor> = x \<and> 0 \<le> x \<and> x \<le> 2 ^ 53)"

definition exact_range :: "resource \<Rightarrow> allocation list \<Rightarrow> bool" where
  "exact_range r allocationsData =
     (safe_whole (quantity r)
      \<and> list_all (\<lambda>alloc. safe_whole (quantityField alloc)) (allocationsOf allocationsData r)
      \<and> spec_allocated r allocationsData \<le> 2 ^ 53)"

section \<open>The component state and its collaborators\<close>

text \<open>
  A template literal is kept as its parts, so that no number formatting has to be modelled.
\<close>

datatype part = Str string | Num rat

record toast_message =
  title :: string
  description :: "part list"
  variant :: "string option"

text \<open>The object passed to \<open>insert\<close> at lines 180 to 185.\<close>

record allocation_insert =
  ins_project_id :: string
  ins_resource_id :: string
  ins_quantity :: rat
  ins_consumed :: bool

text \<open>
  What the remote store answers to one insert: the row was created (with the identifier the
  store gave it) or the request failed with an error.
\<close>

datatype insert_response = Created string | Failed string

text \<open>
  Everything outside the component: the remote table, the insert requests sent so far, the
  notifications shown, the console, and how often the callback \<open>onResourceAdded\<close> ran.
\<close>

record world =
  resource_allocations :: "allocation list"
  insert_requests :: "allocation_insert list"
  toasts :: "toast_message list"
  console :: "string list"
  onResourceAdded_calls :: nat

text \<open>
  The state of the component: the four \<open>useState\<close> cells, the two form values, the message
  under the quantity field and the flags \<open>formState.isSubmitting\<close> and
  \<open>formState.isSubmitted\<close>. The form value of the quantity is \<open>None\<close> when the input does
  not coerce to a number.
\<close>

record modal =
  resources :: "resource list"
  loading :: bool
  selectedResource :: "resource option"
  availableQuantity :: rat
  resourceId :: string
  form_quantity :: "rat option"
  quantity_error :: "part list option"
  isSubmitting :: bool
  isSubmitted :: bool

text \<open>The value handed to \<open>onSubmit\<close>: \<open>z.infer<typeof FormSchema>\<close>.\<close>

record form_data =
  data_resourceId :: string
  data_quantity :: rat

definition mounted :: modal where
  "mounted = \<lparr>resources = [], loading = True, selectedResource = None, availableQuantity = 0,
     resourceId = '''', form_quantity = Some 1, quantity_error = None, isSubmitting = False,
     isSubmitted = False\<rparr>"

definition initial_world :: "allocation list \<Rightarrow> world" where
  "initial_world rows = \<lparr>resource_allocations = rows, insert_requests = [], toasts = [],
     console = [], onResourceAdded_calls = 0\<rparr>"

definition toast :: "toast_message \<Rightarrow> world \<Rightarrow> world" where
  "toast t w = w\<lparr>toasts := toasts w @ [t]\<rparr>"

definition console_error :: "string \<Rightarrow> world \<Rightarrow> world" where
  "console_error msg w = w\<lparr>console := console w @ [msg]\<rparr>"

definition onResourceAdded :: "world \<Rightarrow> world" where
  "onResourceAdded w = w\<lparr>onResourceAdded_calls := onResourceAdded_calls w + 1\<rparr>"

text \<open>
  Modelled from the spec: the remote store behind \<open>supabase.from("resource_allocations").insert\<close>,
  which is not part of the sources. One request is sent; the insert either fully succeeds and
  the row is written, or nothing is written and an error comes back.
\<close>

definition insert_row ::
  "allocation_insert \<Rightarrow> insert_response \<Rightarrow> world \<Rightarrow> world \<times> string option" where
  "insert_row row response w =
     (let w1 = w\<lparr>insert_requests := insert_requests w @ [row]\<rparr>
      in (case response of
            Created new_id \<Rightarrow>
              (w1\<lparr>resource_allocations := resource_allocations w1 @
                   [\<lparr>alloc_id = new_id, project_id = ins_project_id row,
                     resource_id = ins_resource_id row, alloc_quantity = Some (ins_quantity row),
                     consumed = ins_consumed row\<rparr>]\<rparr>, None)
          | Failed error \<Rightarrow> (w1, Some error)))"

section \<open>fetchResources (lines 74 to 139)\<close>

text \<open>
  The two fetches are given by their results: an error or the rows. A failed fetch is
  reported and leaves the list as it was; \<open>finally\<close> clears the loading flag.
\<close>

definition fetch_failed :: "world \<Rightarrow> world" where
  "fetch_failed w =
     toast \<lparr>title = ''Error loading resources'',
            description = [Str ''Could not load available resources''],
            variant = Some ''destructive''\<rparr>
       (console_error ''Error loading resources:'' w)"

definition fetchResources ::
  "string + resource list \<Rightarrow> string + allocation list \<Rightarrow> modal \<times> world \<Rightarrow> modal \<times> world" where
  "fetchResources resourcesResult allocationsResult mw =
     (case mw of (m, w) \<Rightarrow>
        let m1 = m\<lparr>loading := True\<rparr>
        in (case resourcesResult of
              Inl resourcesError \<Rightarrow> (m1\<lparr>loading := False\<rparr>, fetch_failed w)
            | Inr resourcesData \<Rightarrow>
                (case allocationsResult of
                   Inl allocationsError \<Rightarrow> (m1\<lparr>loading := False\<rparr>, fetch_failed w)
                 | Inr allocationsData \<Rightarrow>
                     (m1\<lparr>resources := availableResources resourcesData allocationsData,
                         loading := False\<rparr>, w))))"

section \<open>Selecting a resource (lines 145 to 156)\<close>

text \<open>\<open>field.onChange\<close> of the select control stores the chosen value in the form.\<close>

definition field_onChange :: "string \<Rightarrow> modal \<Rightarrow> modal" where
  "field_onChange v m = m\<lparr>resourceId := v\<rparr>"

text \<open>The body of the effect on \<open>watchResourceId\<close>; the empty string is falsy.\<close>

definition selectionEffect :: "modal \<Rightarrow> modal" where
  "selectionEffect m =
     (if resourceId m \<noteq> '''' then
        (case find (\<lambda>r. id' r = resourceId m) (resources m) of
           Some r \<Rightarrow>
             m\<lparr>selectedResource := Some r,
               availableQuantity := js_or (available r) (quantity r),
               form_quantity := Some 1\<rparr>
         | None \<Rightarrow> m)
      else m)"

section \<open>Submission (lines 54 to 62 and 158 to 203)\<close>

text \<open>
  \<open>FormSchema\<close> with the bound of the current render: \<open>z.string()\<close> accepts every string,
  the default \<open>""\<close> of the form included, so its \<open>required_error\<close> is never issued;
  \<open>z.coerce.number()\<close> rejects an input that is not a number, \<open>positive\<close> wants
  \<open>0 < quantity\<close> and \<open>max\<close> wants \<open>quantity \<le> availableQuantity\<close>. The first issue of the
  field is the message shown.
\<close>

definition FormSchema :: "rat \<Rightarrow> string \<Rightarrow> rat option \<Rightarrow> part list + form_data" where
  "FormSchema bound rid q =
     (case q of
        None \<Rightarrow> Inl [Str ''Expected number, received nan'']
      | Some n \<Rightarrow>
          if \<not> 0 < n then Inl [Str ''Quantity must be positive'']
          else if \<not> n \<le> bound then Inl [Str ''Maximum available quantity is '', Num bound]
          else Inr \<lparr>data_resourceId = rid, data_quantity = n\<rparr>)"

text \<open>
  Typing into the quantity field stores the value in the form. Once a submission has been
  attempted, the form library validates the field again on every change and sets or clears
  its message; before that it does not validate.
\<close>

definition inputQuantity :: "rat option \<Rightarrow> modal \<Rightarrow> modal" where
  "inputQuantity q m =
     (let m1 = m\<lparr>form_quantity := q\<rparr>
      in if isSubmitted m1 then
           m1\<lparr>quantity_error :=
                (case FormSchema (availableQuantity m1) (resourceId m1) (form_quantity m1) of
                   Inl message \<Rightarrow> Some message
                 | Inr data \<Rightarrow> None)\<rparr>
         else m1)"

text \<open>
  The \<open>try\<close> block of \<open>onSubmit\<close>: the world it leaves and the error it throws, if any.
\<close>

definition onSubmit_try ::
  "string \<Rightarrow> insert_response \<Rightarrow> modal \<Rightarrow> form_data \<Rightarrow> world \<Rightarrow> world \<times> string option" where
  "onSubmit_try projectId response m data w =
     (if selectedResource m = None then
        (toast \<lparr>title = ''Selection error'',
                description = [Str ''Please select a resource first''],
                variant = Some ''destructive''\<rparr> w, None)
      else if data_quantity data > availableQuantity m then
        (toast \<lparr>title = ''Quantity error'',
                description = [Str ''Only '', Num (availableQuantity m), Str '' units available''],
                variant = Some ''destructive''\<rparr> w, None)
      else
        (case insert_row \<lparr>ins_project_id = projectId, ins_resource_id = data_resourceId data,
                      ins_quantity = data_quantity data, ins_consumed = False\<rparr> response w of
           (w1, Some error) \<Rightarrow> (w1, Some error)
         | (w1, None) \<Rightarrow>
             (onResourceAdded
                (toast \<lparr>title = ''Resource added'',
                        description = [Str ''Resource has been added to the project''],
                        variant = None\<rparr> w1), None)))"

text \<open>\<open>onSubmit\<close>: the \<open>try\<close> block, and the \<open>catch\<close> block when it threw.\<close>

definition onSubmit :: "string \<Rightarrow> insert_response \<Rightarrow> modal \<Rightarrow> form_data \<Rightarrow> world \<Rightarrow> world" where
  "onSubmit projectId response m data w =
     (case onSubmit_try projectId response m data w of
        (w1, None) \<Rightarrow> w1
      | (w1, Some error) \<Rightarrow>
          toast \<lparr>title = ''Error'',
                 description = [Str ''Failed to add resource to project''],
                 variant = Some ''destructive''\<rparr>
            (console_error ''Error adding resource:'' w1))"

text \<open>
  Modelled from the spec: the submitting indicator of \<open>form.handleSubmit\<close>, a function of the
  form library, which is not part of the sources; it is set when the attempt starts and
  cleared afterwards whatever the outcome. The order of the two stages is the one of the
  sources, not of the specification: line 65 makes the schema the resolver of the form and
  line 217 wraps \<open>onSubmit\<close> in \<open>handleSubmit\<close>, so that \<open>onSubmit\<close> receives the parsed
  output of the schema (line 158) and runs only after the schema has accepted the values;
  a rejected value leaves its message at the field.
\<close>

definition handleSubmit :: "string \<Rightarrow> insert_response \<Rightarrow> modal \<times> world \<Rightarrow> modal \<times> world" where
  "handleSubmit projectId response mw =
     (case mw of (m, w) \<Rightarrow>
        let m1 = m\<lparr>isSubmitting := True\<rparr>
        in (case FormSchema (availableQuantity m1) (resourceId m1) (form_quantity m1) of
              Inl message \<Rightarrow>
                (m1\<lparr>quantity_error := Some message, isSubmitting := False,
                    isSubmitted := True\<rparr>, w)
            | Inr data \<Rightarrow>
                (let w1 = onSubmit projectId response m1 data w
                 in (m1\<lparr>quantity_error := None, isSubmitting := False,
                        isSubmitted := True\<rparr>, w1))))"

text \<open>The \<open>disabled\<close> attribute of the submit button (line 306).\<close>

definition submitDisabled :: "modal \<Rightarrow> bool" where
  "submitDisabled m = (loading m \<or> selectedResource m = None \<or> isSubmitting m)"

section \<open>The events of the component\<close>




section \<open>The error taxonomy of the specification\<close>

datatype submit_error = SelectionError | ValidationError | PersistenceError

text \<open>
  How a notification is classified: by its title. A message under the quantity field is a
  validation error.
\<close>

definition toast_error :: "toast_message \<Rightarrow> submit_error option" where
  "toast_error t =
     (if title t = ''Selection error'' then Some SelectionError
      else if title t = ''Quantity error'' then Some ValidationError
      else if title t = ''Error'' then Some PersistenceError
      else None)"

text \<open>The error, if any, with which one submission attempt ends.\<close>

definition submit_outcome ::
  "string \<Rightarrow> insert_response \<Rightarrow> modal \<times> world \<Rightarrow> submit_error option" where
  "submit_outcome projectId response mw =
     (case handleSubmit projectId response mw of
        (m', w') \<Rightarrow>
          (case quantity_error m' of
             Some message \<Rightarrow> Some ValidationError
           | None \<Rightarrow>
               (case drop (length (toasts (snd mw))) (toasts w') of
                  [] \<Rightarrow> None
                | t # ts \<Rightarrow> toast_error t)))"




section \<open>Example data\<close>

definition timber :: resource where
  "timber = \<lparr>id' = ''r1'', name = ''Timber'', type' = ''Material'', unit' = ''pcs'',
     quantity = 50, cost = 12, returnable = False, status = ''Available'',
     allocated = None, available = None\<rparr>"

definition cement :: resource where
  "cement = \<lparr>id' = ''r2'', name = ''Cement'', type' = ''Material'', unit' = ''bags'',
     quantity = 100, cost = 7, returnable = False, status = ''Available'',
     allocated = None, available = None\<rparr>"

definition scaffold :: resource where
  "scaffold = \<lparr>id' = ''r3'', name = ''Scaffold'', type' = ''Equipment'', unit' = ''sets'',
     quantity = 10, cost = 90, returnable = True, status = ''Available'',
     allocated = None, available = None\<rparr>"

definition example_allocations :: "allocation list" where
  "example_allocations =
     [\<lparr>alloc_id = ''a1'', project_id = ''p1'', resource_id = ''r2'',
        alloc_quantity = Some 60, consumed = False\<rparr>,
      \<lparr>alloc_id = ''a2'', project_id = ''p2'', resource_id = ''r3'',
        alloc_quantity = Some 10, consumed = False\<rparr>,
      \<lparr>alloc_id = ''a3'', project_id = ''p1'', resource_id = ''r2'',
        alloc_quantity = Some 25, consumed = False\<rparr>,
      \<lparr>alloc_id = ''a4'', project_id = ''p3'', resource_id = ''r1'',
        alloc_quantity = Some 30, consumed = True\<rparr>,
      \<lparr>alloc_id = ''a5'', project_id = ''p3'', resource_id = ''r2'',
        alloc_quantity = None, consumed = False\<rparr>]"

text \<open>
  The example of the specification: a resource of quantity 50 without outstanding
  allocations is selected and all 50 units are requested.
\<close>

definition example_loaded :: "modal \<times> world" where
  "example_loaded =
     fetchResources (Inr [cement, scaffold, timber]) (Inr example_allocations)
       (mounted, initial_world example_allocations)"

definition example_selected :: "modal \<times> world" where
  "example_selected =
     (inputQuantity (Some 50) (selectionEffect (field_onChange ''r1'' (fst example_loaded))),
      snd example_loaded)"

definition example_submitted :: "modal \<times> world" where
  "example_submitted = handleSubmit ''p1'' (Created ''a9'') example_selected"



text \<open>
  A resource whose quantity is above \<open>2^53\<close>, with three outstanding allocations of
  \<open>2^53\<close>, 1 and 1 units.
\<close>

definition bulk :: resource where
  "bulk = \<lparr>id' = ''r9'', name = ''Gravel'', type' = ''Material'', unit' = ''g'',
     quantity = 9007199254740994, cost = 1, returnable = False, status = ''Available'',
     allocated = None, available = None\<rparr>"

definition bulk_allocations :: "allocation list" where
  "bulk_allocations =
     [\<lparr>alloc_id = ''b1'', project_id = ''p1'', resource_id = ''r9'',
        alloc_quantity = Some 9007199254740992, consumed = False\<rparr>,
      \<lparr>alloc_id = ''b2'', project_id = ''p2'', resource_id = ''r9'',
        alloc_quantity = Some 1, consumed = False\<rparr>,
      \<lparr>alloc_id = ''b3'', project_id = ''p3'', resource_id = ''r9'',
        alloc_quantity = Some 1, consumed = False\<rparr>]"

section \<open>Predicates used in the statements\<close>

text \<open>
  A submission passes all checks: a resource is selected and the quantity in the form is a
  positive number of at most \<open>availableQuantity\<close>.
\<close>

definition passes_validation :: "modal \<Rightarrow> rat \<Rightarrow> bool" where
  "passes_validation m q =
     (selectedResource m \<noteq> None \<and> form_quantity m = Some q \<and> 0 < q \<and> q \<le> availableQuantity m)"


section \<open>The availability computation on a store of objects\<close>

text \<open>
  In the program the two inputs are arrays of objects that the caller still holds. To say
  that the computation leaves them alone, the same lines 93 to 126 are modelled once more on
  an explicit store: an address is an index into the list of all objects, a new object or
  array is put at the end, and an array holds the addresses of its elements. \<open>None\<close> stands
  for reading an address that does not hold an object of the expected kind.
\<close>

type_synonym addr = nat

datatype obj = ResourceObj resource | AllocationObj allocation | ArrayObj "addr list"

type_synonym heap = "obj list"

definition lookup :: "heap \<Rightarrow> addr \<Rightarrow> obj option" where
  "lookup h a = (if a < length h then Some (h ! a) else None)"

definition new_obj :: "obj \<Rightarrow> heap \<Rightarrow> addr \<times> heap" where
  "new_obj v h = (length h, h @ [v])"

definition get_resource :: "heap \<Rightarrow> addr \<Rightarrow> resource option" where
  "get_resource h a = (case lookup h a of Some (ResourceObj r) \<Rightarrow> Some r | _ \<Rightarrow> None)"

definition get_allocation :: "heap \<Rightarrow> addr \<Rightarrow> allocation option" where
  "get_allocation h a = (case lookup h a of Some (AllocationObj x) \<Rightarrow> Some x | _ \<Rightarrow> None)"

definition get_array :: "heap \<Rightarrow> addr \<Rightarrow> addr list option" where
  "get_array h a = (case lookup h a of Some (ArrayObj xs) \<Rightarrow> Some xs | _ \<Rightarrow> None)"

text \<open>The objects behind a list of addresses, and the contents of an array of objects.\<close>

fun read_all :: "(addr \<Rightarrow> 'a option) \<Rightarrow> addr list \<Rightarrow> 'a list option" where
  "read_all f [] = Some []"
| "read_all f (a # as) =
     (case f a of
        None \<Rightarrow> None
      | Some x \<Rightarrow> (case read_all f as of None \<Rightarrow> None | Some xs \<Rightarrow> Some (x # xs)))"

definition read_resources :: "heap \<Rightarrow> addr \<Rightarrow> resource list option" where
  "read_resources h a =
     (case get_array h a of None \<Rightarrow> None | Some elems \<Rightarrow> read_all (get_resource h) elems)"

definition read_allocations :: "heap \<Rightarrow> addr \<Rightarrow> allocation list option" where
  "read_allocations h a =
     (case get_array h a of None \<Rightarrow> None | Some elems \<Rightarrow> read_all (get_allocation h) elems)"

text \<open>\<open>allocationsData.filter(...)\<close> of lines 94 to 96: the addresses that are kept.\<close>

fun filter_allocations :: "heap \<Rightarrow> resource \<Rightarrow> addr list \<Rightarrow> addr list option" where
  "filter_allocations h r [] = Some []"
| "filter_allocations h r (a # as) =
     (case get_allocation h a of
        None \<Rightarrow> None
      | Some alloc \<Rightarrow>
          (case filter_allocations h r as of
             None \<Rightarrow> None
           | Some kept \<Rightarrow>
               Some (if resource_id alloc = id' r \<and> \<not> consumed alloc then a # kept else kept)))"

text \<open>\<open>allocations.reduce(...)\<close> of lines 97 to 100.\<close>

fun reduce_quantity :: "heap \<Rightarrow> rat \<Rightarrow> addr list \<Rightarrow> rat option" where
  "reduce_quantity h acc [] = Some acc"
| "reduce_quantity h acc (a # as) =
     (case get_allocation h a of
        None \<Rightarrow> None
      | Some alloc \<Rightarrow> reduce_quantity h (js_add acc (js_or (alloc_quantity alloc) 0)) as)"

text \<open>
  The callback of \<open>resourcesData.map\<close>: \<open>filter\<close> makes a new array, and the object literal
  with the spread makes a new object.
\<close>

definition withAvailability_h :: "addr \<Rightarrow> addr \<Rightarrow> heap \<Rightarrow> (addr \<times> heap) option" where
  "withAvailability_h allocationsData ra h =
     (case get_resource h ra of
        None \<Rightarrow> None
      | Some r \<Rightarrow>
          (case get_array h allocationsData of
             None \<Rightarrow> None
           | Some elems \<Rightarrow>
               (case filter_allocations h r elems of
                  None \<Rightarrow> None
                | Some kept \<Rightarrow>
                    (case new_obj (ArrayObj kept) h of
                       (allocations, h1) \<Rightarrow>
                         (case get_array h1 allocations of
                            None \<Rightarrow> None
                          | Some xs \<Rightarrow>
                              (case reduce_quantity h1 0 xs of
                                 None \<Rightarrow> None
                               | Some allocatedQty \<Rightarrow>
                                   Some (new_obj
                                     (ResourceObj
                                        (r\<lparr>allocated := Some allocatedQty,
                                           available := Some (js_sub (quantity r) allocatedQty),
                                           status := stockStatus
                                                       (js_sub (quantity r) allocatedQty)
                                                       (quantity r)\<rparr>))
                                     h1)))))))"

text \<open>\<open>map\<close> calls the callback on the elements from left to right.\<close>

fun map_h :: "addr \<Rightarrow> addr list \<Rightarrow> heap \<Rightarrow> (addr list \<times> heap) option" where
  "map_h allocationsData [] h = Some ([], h)"
| "map_h allocationsData (ra # ras) h =
     (case withAvailability_h allocationsData ra h of
        None \<Rightarrow> None
      | Some (a, h1) \<Rightarrow>
          (case map_h allocationsData ras h1 of
             None \<Rightarrow> None
           | Some (out, h2) \<Rightarrow> Some (a # out, h2)))"

text \<open>\<open>resourcesWithAvailability.filter(resource => resource.available > 0)\<close>.\<close>

fun filter_available :: "heap \<Rightarrow> addr list \<Rightarrow> addr list option" where
  "filter_available h [] = Some []"
| "filter_available h (a # as) =
     (case get_resource h a of
        None \<Rightarrow> None
      | Some r \<Rightarrow>
          (case filter_available h as of
             None \<Rightarrow> None
           | Some kept \<Rightarrow> Some (if js_positive (available r) then a # kept else kept)))"

definition availableResources_h :: "addr \<Rightarrow> addr \<Rightarrow> heap \<Rightarrow> (addr \<times> heap) option" where
  "availableResources_h resourcesData allocationsData h =
     (case get_array h resourcesData of
        None \<Rightarrow> None
      | Some elems \<Rightarrow>
          (case map_h allocationsData elems h of
             None \<Rightarrow> None
           | Some (out, h1) \<Rightarrow>
               (case new_obj (ArrayObj out) h1 of
                  (resourcesWithAvailability_a, h2) \<Rightarrow>
                    (case get_array h2 resourcesWithAvailability_a of
                       None \<Rightarrow> None
                     | Some xs \<Rightarrow>
                         (case filter_available h2 xs of
                            None \<Rightarrow> None
                          | Some kept \<Rightarrow> Some (new_obj (ArrayObj kept) h2))))))"

definition example_heap :: heap where
  "example_heap =
     [ResourceObj cement, ResourceObj scaffold, ResourceObj timber]
     @ map AllocationObj example_allocations
     @ [ArrayObj [0, 1, 2], ArrayObj [3, 4, 5, 6, 7]]"

section \<open>Helper lemmas\<close>

subsection \<open>Rounding to a double\<close>

lemma bitlen_powi:
  assumes "0 < p"
  shows "(2::rat) powi (bitlen p - 1) \<le> of_int p" "of_int p < (2::rat) powi bitlen p"
proof -
  from assms have b: "1 \<le> bitlen p" using bitlen_eq_zero_iff [of p] bitlen_nonneg [of p] by linarith
  from bitlen_bounds [OF assms] have "2 ^ nat (bitlen p - 1) \<le> p" "p < 2 ^ nat (bitlen p)" by auto
  then have "(of_int (2 ^ nat (bitlen p - 1))::rat) \<le> of_int p"
    "(of_int p::rat) < of_int (2 ^ nat (bitlen p))"
    by (simp_all only: of_int_le_iff of_int_less_iff)
  with b show "(2::rat) powi (bitlen p - 1) \<le> of_int p" "of_int p < (2::rat) powi bitlen p"
    by (simp_all add: power_int_nonneg_exp)
qed

lemma expo_bounds:
  assumes "x \<noteq> 0"
  shows "2 powi expo x \<le> \<bar>x\<bar>" "\<bar>x\<bar> < 2 powi (expo x + 1)"
proof -
  obtain p q where pq: "quotient_of \<bar>x\<bar> = (p, q)" by (cases "quotient_of \<bar>x\<bar>")
  then have q: "0 < q" and x: "\<bar>x\<bar> = of_int p / of_int q"
    by (auto dest: quotient_of_denom_pos quotient_of_div)
  from assms have "0 < \<bar>x\<bar>" by simp
  with x q have p: "0 < p" by (simp add: zero_less_divide_iff)
  let ?e = "bitlen p - bitlen q"
  note bp = bitlen_powi [OF p] and bq = bitlen_powi [OF q]
  have qpos: "(0::rat) < of_int q" using q by simp
  have "\<bar>x\<bar> < 2 powi bitlen p / of_int q"
    unfolding x using bp(2) qpos by (simp add: divide_strict_right_mono)
  also have "\<dots> \<le> 2 powi bitlen p / 2 powi (bitlen q - 1)"
    using bq(1) by (simp add: frac_le)
  also have "\<dots> = 2 powi (?e + 1)"
    by (simp add: power_int_diff [symmetric] algebra_simps)
  finally have up: "\<bar>x\<bar> < 2 powi (?e + 1)" .
  have "2 powi (?e - 1) = 2 powi (bitlen p - 1) / (2::rat) powi bitlen q"
    by (simp add: power_int_diff [symmetric] algebra_simps)
  also have "\<dots> \<le> of_int p / 2 powi bitlen q"
    using bp(1) by (simp add: divide_right_mono)
  also have "\<dots> \<le> of_int p / of_int q"
    using bq(2) p qpos by (simp add: frac_le)
  finally have lo: "2 powi (?e - 1) \<le> \<bar>x\<bar>" by (simp add: x)
  show "2 powi expo x \<le> \<bar>x\<bar>"
    using lo by (simp add: expo_def pq Let_def)
  show "\<bar>x\<bar> < 2 powi (expo x + 1)"
    using up by (auto simp: expo_def pq Let_def not_le)
qed

lemma round_even_of_int: "round_even (of_int k) = k"
  by (simp add: round_even_def)


lemma round_even_le: "y \<le> of_int n \<Longrightarrow> round_even y \<le> n"
proof -
  assume y: "y \<le> of_int n"
  show ?thesis
  proof (cases "y = of_int \<lfloor>y\<rfloor>")
    case True
    then have "round_even y = \<lfloor>y\<rfloor>" by (simp add: round_even_def)
    with y show ?thesis by (simp add: floor_le_iff)
  next
    case False
    then have "of_int \<lfloor>y\<rfloor> < y" using of_int_floor_le [of y] by linarith
    with y have "(of_int \<lfloor>y\<rfloor>::rat) < of_int n" by linarith
    then have "\<lfloor>y\<rfloor> < n" by (simp only: of_int_less_iff)
    moreover have "round_even y \<le> \<lfloor>y\<rfloor> + 1" by (simp add: round_even_def Let_def)
    ultimately show ?thesis by linarith
  qed
qed

lemma round_even_ge: "of_int n \<le> y \<Longrightarrow> n \<le> round_even y"
proof -
  assume "of_int n \<le> y"
  then have "n \<le> \<lfloor>y\<rfloor>" by (simp add: le_floor_iff)
  moreover have "\<lfloor>y\<rfloor> \<le> round_even y" by (simp add: round_even_def Let_def)
  ultimately show ?thesis by linarith
qed

lemma expo_minus: "expo (- x) = expo x"
  by (simp add: expo_def)

lemma fl_minus: "fl (- x) = - fl x"
  by (simp add: fl_def expo_minus Let_def)

lemma fl_zero: "fl 0 = 0"
  by (simp add: fl_def)

lemma fl_representable:
  assumes k: "0 < k" "k \<le> 2 ^ 53" and E: "- 1074 \<le> E"
  shows "fl (of_int k * 2 powi E) = of_int k * 2 powi E"
proof -
  let ?z = "of_int k * (2::rat) powi E"
  have zpos: "0 < ?z" using k by simp
  have z0: "?z \<noteq> 0" using k by simp
  have az: "\<bar>?z\<bar> = ?z" using zpos by (rule abs_of_pos)
  have sz: "sgn ?z = 1" using zpos by (rule sgn_pos)
  let ?e = "expo ?z"
  from expo_bounds(1) [OF z0] have "2 powi ?e \<le> ?z" by (simp only: az)
  then have "2 powi ?e / 2 powi E \<le> (of_int k::rat)"
    by (simp add: pos_divide_le_eq)
  then have lo: "2 powi (?e - E) \<le> (of_int k::rat)"
    by (simp add: power_int_diff)
  also have "(of_int k::rat) \<le> of_int (2 ^ 53)" using k(2) by (simp only: of_int_le_iff)
  also have "\<dots> = 2 powi 53" by simp
  finally have "?e - E \<le> 53"
    by (rule power_int_le_imp_le_exp [rotated]) simp_all
  then consider "?e - E \<le> 52" | "?e - E = 53" by linarith
  then show ?thesis
  proof cases
    case 1
    let ?E' = "max (?e - 52) (- 1074)"
    from 1 E have le: "?E' \<le> E" by simp
    have "?z / 2 powi ?E' = of_int k * 2 powi (E - ?E')"
      by (simp add: power_int_diff)
    also have "\<dots> = of_int (k * 2 ^ nat (E - ?E'))"
      using le by (simp add: power_int_nonneg_exp)
    finally have "round_even (?z / 2 powi ?E') = k * 2 ^ nat (E - ?E')"
      by (simp only: round_even_of_int)
    then have "of_int (round_even (?z / 2 powi ?E')) * 2 powi ?E'
        = of_int k * (2 powi (E - ?E') * (2::rat) powi ?E')"
      using le by (simp add: power_int_nonneg_exp)
    also have "\<dots> = ?z"
      by (simp add: power_int_add [symmetric])
    finally show ?thesis
      using z0 by (simp only: fl_def az sz Let_def if_False mult_1)
  next
    case 2
    with lo have "(2::rat) powi 53 \<le> of_int k" by simp
    then have "(of_int (2 ^ 53)::rat) \<le> of_int k" by simp
    then have "2 ^ 53 \<le> k" by (simp only: of_int_le_iff)
    with k(2) have keq: "k = 2 ^ 53" by simp
    from 2 E have E': "max (?e - 52) (- 1074) = E + 1" by simp
    have "?z / 2 powi (E + 1) = of_int k / 2"
      by (simp add: power_int_add)
    also have "\<dots> = of_int (2 ^ 52)" by (simp add: keq)
    finally have "round_even (?z / 2 powi (E + 1)) = 2 ^ 52"
      by (simp only: round_even_of_int)
    then have "of_int (round_even (?z / 2 powi (E + 1))) * 2 powi (E + 1) = ?z"
      by (simp add: keq power_int_add)
    then show ?thesis
      using z0 by (simp only: fl_def az sz Let_def if_False mult_1 E')
  qed
qed

lemma fl_of_int:
  assumes "\<bar>n\<bar> \<le> 2 ^ 53"
  shows "fl (of_int n) = of_int n"
proof -
  have pos: "fl (of_int k) = of_int k" if "0 < k" "k \<le> 2 ^ 53" for k
    using fl_representable [OF that, of 0] by simp
  consider "n = 0" | "0 < n" | "n < 0" by linarith
  then show ?thesis
  proof cases
    case 1
    then show ?thesis by (simp add: fl_zero)
  next
    case 2
    with assms show ?thesis by (simp add: pos)
  next
    case 3
    with assms have "fl (of_int (- n)) = of_int (- n)" by (intro pos) simp_all
    then show ?thesis by (simp add: fl_minus)
  qed
qed

lemma fl_idem: "fl (fl x) = fl x"
proof (cases "x = 0")
  case True
  then show ?thesis by (simp add: fl_zero)
next
  case False
  let ?E = "max (expo x - 52) (- 1074)"
  let ?y = "\<bar>x\<bar> / 2 powi ?E"
  let ?k = "round_even ?y"
  have flx: "fl x = sgn x * (of_int ?k * 2 powi ?E)"
    using False by (simp add: fl_def Let_def mult.assoc)
  have "0 \<le> ?y" by simp
  then have "(of_int 0::rat) \<le> ?y" by simp
  then have k0: "0 \<le> ?k" by (rule round_even_ge)
  have "\<bar>x\<bar> < 2 powi (expo x + 1)" by (rule expo_bounds(2) [OF False])
  also have "\<dots> \<le> 2 powi (?E + 53)"
    by (rule power_int_increasing) simp_all
  also have "\<dots> = 2 powi 53 * 2 powi ?E"
    by (simp add: power_int_add mult.commute)
  finally have "?y < 2 powi 53"
    by (simp add: pos_divide_less_eq)
  then have "?y \<le> of_int (2 ^ 53)" by simp
  then have k53: "?k \<le> 2 ^ 53" by (rule round_even_le)
  show ?thesis
  proof (cases "?k = 0")
    case True
    with flx show ?thesis by (simp add: fl_zero)
  next
    case nz: False
    with k0 have "0 < ?k" by simp
    from fl_representable [OF this k53, of ?E]
    have fixed: "fl (of_int ?k * 2 powi ?E) = of_int ?k * 2 powi ?E" by simp
    consider "0 < x" | "x < 0" using False by linarith
    then show ?thesis
    proof cases
      case 1
      with flx fixed show ?thesis by simp
    next
      case 2
      then have "fl x = - (of_int ?k * 2 powi ?E)" using flx by simp
      with fixed show ?thesis by (simp add: fl_minus)
    qed
  qed
qed

subsection \<open>The allocated total\<close>

lemma js_or_zero: "js_or q 0 = (case q of None \<Rightarrow> 0 | Some v \<Rightarrow> v)"
  by (cases q) (simp_all add: js_or_def)

lemma allocatedQuantity_fold:
  "allocatedQuantity allocationsData r
     = foldl (\<lambda>sum alloc. js_add sum (quantityField alloc)) 0 (allocationsOf allocationsData r)"
  by (simp add: allocatedQuantity_def js_or_zero quantityField_def)

lemma fl_partial_sum:
  "fl (foldl (\<lambda>sum alloc. js_add sum (quantityField alloc)) 0 xs)
     = foldl (\<lambda>sum alloc. js_add sum (quantityField alloc)) 0 xs"
  by (induction xs rule: rev_induct) (simp_all add: fl_zero js_add_def fl_idem)

lemma fold_skips_zero:
  assumes "quantityField a = 0"
  shows "foldl (\<lambda>sum alloc. js_add sum (quantityField alloc)) 0 (xs @ a # ys)
     = foldl (\<lambda>sum alloc. js_add sum (quantityField alloc)) 0 (xs @ ys)"
  using assms fl_partial_sum [of xs] by (simp add: js_add_def)

lemma safe_whole_floor: "safe_whole x \<Longrightarrow> of_int \<lfloor>x\<rfloor> = x"
  unfolding safe_whole_def by (rule conjunct1)

lemma safe_whole_range: "safe_whole x \<Longrightarrow> 0 \<le> x \<and> x \<le> 2 ^ 53"
  unfolding safe_whole_def by (rule conjunct2)

lemma safe_whole_fl: "safe_whole x \<Longrightarrow> fl x = x"
proof -
  assume sw: "safe_whole x"
  from safe_whole_floor [OF sw] have x: "x = of_int \<lfloor>x\<rfloor>" by (rule sym)
  from safe_whole_range [OF sw] have r: "0 \<le> x" "x \<le> 2 ^ 53" by simp_all
  from r have "0 \<le> \<lfloor>x\<rfloor>" by simp
  moreover from r have "x \<le> of_int (2 ^ 53)" by simp
  then have "\<lfloor>x\<rfloor> \<le> 2 ^ 53" using floor_mono [of x "of_int (2 ^ 53)"] by (simp only: floor_of_int)
  ultimately have "\<bar>\<lfloor>x\<rfloor>\<bar> \<le> 2 ^ 53" by simp
  from fl_of_int [OF this] show ?thesis by (simp only: safe_whole_floor [OF sw])
qed

lemma safe_whole_add:
  assumes a: "safe_whole a" and b: "safe_whole b" and le: "a + b \<le> 2 ^ 53"
  shows "safe_whole (a + b)"
proof -
  have "a + b = of_int (\<lfloor>a\<rfloor> + \<lfloor>b\<rfloor>)"
    by (simp only: of_int_add safe_whole_floor [OF a] safe_whole_floor [OF b])
  then have "of_int \<lfloor>a + b\<rfloor> = a + b" by (metis floor_of_int)
  moreover from safe_whole_range [OF a] safe_whole_range [OF b] have "0 \<le> a + b" by simp
  ultimately show ?thesis using le unfolding safe_whole_def by (intro conjI)
qed

lemma sum_safe_whole:
  assumes "list_all (\<lambda>alloc. safe_whole (quantityField alloc)) xs"
    "(\<Sum>alloc \<leftarrow> xs. quantityField alloc) \<le> 2 ^ 53"
  shows "safe_whole (\<Sum>alloc \<leftarrow> xs. quantityField alloc)"
  using assms
proof (induction xs)
  case Nil
  show ?case by (simp add: safe_whole_def)
next
  case (Cons a xs)
  from Cons.prems(1) have sa: "safe_whole (quantityField a)"
    and rest: "list_all (\<lambda>alloc. safe_whole (quantityField alloc)) xs" by simp_all
  from safe_whole_range [OF sa] have "0 \<le> quantityField a" by simp
  with Cons.prems(2) have "(\<Sum>alloc \<leftarrow> xs. quantityField alloc) \<le> 2 ^ 53" by simp
  from Cons.IH [OF rest this] have "safe_whole (\<Sum>alloc \<leftarrow> xs. quantityField alloc)" .
  from safe_whole_add [OF sa this] Cons.prems(2) show ?case by simp
qed

lemma fold_exact:
  assumes "list_all (\<lambda>alloc. safe_whole (quantityField alloc)) xs" "safe_whole acc"
    "acc + (\<Sum>alloc \<leftarrow> xs. quantityField alloc) \<le> 2 ^ 53"
  shows "foldl (\<lambda>sum alloc. js_add sum (quantityField alloc)) acc xs
     = acc + (\<Sum>alloc \<leftarrow> xs. quantityField alloc)"
  using assms
proof (induction xs arbitrary: acc)
  case Nil
  then show ?case by simp
next
  case (Cons a xs)
  from Cons.prems(1) have sa: "safe_whole (quantityField a)"
    and rest: "list_all (\<lambda>alloc. safe_whole (quantityField alloc)) xs" by simp_all
  from rest have "0 \<le> (\<Sum>alloc \<leftarrow> xs. quantityField alloc)"
    by (induction xs) (auto dest: safe_whole_range)
  with Cons.prems(3) have le: "acc + quantityField a \<le> 2 ^ 53" by simp
  from safe_whole_add [OF Cons.prems(2) sa le] have s: "safe_whole (acc + quantityField a)" .
  then have step: "js_add acc (quantityField a) = acc + quantityField a"
    by (simp add: js_add_def safe_whole_fl)
  from Cons.prems(3) have "acc + quantityField a + (\<Sum>alloc \<leftarrow> xs. quantityField alloc) \<le> 2 ^ 53"
    by (simp add: add.assoc)
  from Cons.IH [OF rest s this] step show ?case by (simp add: add.assoc)
qed

lemma exact_range_allocated:
  assumes "exact_range r allocationsData"
  shows "allocatedQuantity allocationsData r = spec_allocated r allocationsData"
    and "availableQty allocationsData r = quantity r - spec_allocated r allocationsData"
proof -
  have sp: "spec_allocated r allocationsData
      = (\<Sum>alloc \<leftarrow> allocationsOf allocationsData r. quantityField alloc)"
    by (simp add: spec_allocated_def allocationsOf_def)
  from assms have all: "list_all (\<lambda>alloc. safe_whole (quantityField alloc))
      (allocationsOf allocationsData r)"
    and q: "safe_whole (quantity r)" and le: "spec_allocated r allocationsData \<le> 2 ^ 53"
    by (simp_all add: exact_range_def)
  have z: "safe_whole 0" by (simp add: safe_whole_def)
  from fold_exact [OF all z] le
  show a: "allocatedQuantity allocationsData r = spec_allocated r allocationsData"
    by (simp add: allocatedQuantity_fold sp)
  from sum_safe_whole [OF all] le have s: "safe_whole (spec_allocated r allocationsData)"
    by (simp add: sp)
  let ?q = "quantity r" and ?s = "spec_allocated r allocationsData"
  have d: "?q - ?s = of_int (\<lfloor>?q\<rfloor> - \<lfloor>?s\<rfloor>)"
    by (simp only: of_int_diff safe_whole_floor [OF q] safe_whole_floor [OF s])
  from safe_whole_range [OF q] safe_whole_range [OF s]
  have "0 \<le> \<lfloor>?q\<rfloor>" "0 \<le> \<lfloor>?s\<rfloor>" "?q \<le> of_int (2 ^ 53)" "?s \<le> of_int (2 ^ 53)"
    by simp_all
  moreover from this(3,4) have "\<lfloor>?q\<rfloor> \<le> 2 ^ 53" "\<lfloor>?s\<rfloor> \<le> 2 ^ 53"
    using floor_mono [of ?q "of_int (2 ^ 53)"] floor_mono [of ?s "of_int (2 ^ 53)"]
    by (simp_all only: floor_of_int)
  ultimately have "\<bar>\<lfloor>?q\<rfloor> - \<lfloor>?s\<rfloor>\<bar> \<le> 2 ^ 53" by linarith
  from fl_of_int [OF this] have "fl (?q - ?s) = ?q - ?s" by (simp only: d)
  with a show "availableQty allocationsData r = ?q - ?s"
    by (simp add: availableQty_def js_sub_def)
qed

subsection \<open>The availability computation on the examples\<close>

lemma fl_numeral: "numeral k \<le> (2 ^ 53 :: int) \<Longrightarrow> fl (numeral k) = numeral k"
  using fl_of_int [of "numeral k"] by simp

lemma available_withAvailability:
  "available (withAvailability allocationsData r) = Some (availableQty allocationsData r)"
  by (simp add: withAvailability_def)

lemma id_withAvailability: "id' (withAvailability allocationsData r) = id' r"
  by (simp add: withAvailability_def)

lemma availableResources_filter_map:
  "availableResources resourcesData allocationsData
     = map (withAvailability allocationsData)
         (filter (\<lambda>r. 0 < availableQty allocationsData r) resourcesData)"
  by (simp add: availableResources_def resourcesWithAvailability_def filter_map comp_def
      available_withAvailability js_positive_def)

lemma example_resources:
  "availableResources [cement, scaffold, timber] example_allocations
     = [cement\<lparr>allocated := Some 85, available := Some 15, status := ''Low Stock''\<rparr>,
        timber\<lparr>allocated := Some 0, available := Some 50, status := ''Available''\<rparr>]"
  by (simp add: availableResources_def resourcesWithAvailability_def withAvailability_def
      availableQty_def allocatedQuantity_def allocationsOf_def example_allocations_def
      cement_def scaffold_def timber_def js_or_def js_positive_def stockStatus_def
      js_add_def js_sub_def fl_numeral fl_zero)

lemma fl_above_safe: "fl 9007199254740993 = 9007199254740992"
  by code_simp

lemma bulk_allocated: "allocatedQuantity bulk_allocations bulk = 9007199254740992"
  by (simp add: allocatedQuantity_def allocationsOf_def bulk_allocations_def bulk_def js_or_def
      js_add_def fl_numeral fl_above_safe)

lemma bulk_available: "availableQty bulk_allocations bulk = 2"
  by (simp add: availableQty_def bulk_allocated js_sub_def fl_numeral) (simp add: bulk_def fl_numeral)

subsection \<open>One submission attempt, case by case\<close>

lemma handleSubmit_cases:
  "handleSubmit p response (m, w) =
     (case form_quantity m of
        None \<Rightarrow>
          (m\<lparr>quantity_error := Some [Str ''Expected number, received nan''],
             isSubmitting := False, isSubmitted := True\<rparr>, w)
      | Some q \<Rightarrow>
          if \<not> 0 < q then
            (m\<lparr>quantity_error := Some [Str ''Quantity must be positive''],
               isSubmitting := False, isSubmitted := True\<rparr>, w)
          else if availableQuantity m < q then
            (m\<lparr>quantity_error :=
                 Some [Str ''Maximum available quantity is '', Num (availableQuantity m)],
               isSubmitting := False, isSubmitted := True\<rparr>, w)
          else
            (m\<lparr>quantity_error := None, isSubmitting := False, isSubmitted := True\<rparr>,
             onSubmit p response (m\<lparr>isSubmitting := True\<rparr>)
               \<lparr>data_resourceId = resourceId m, data_quantity = q\<rparr> w))"
  by (simp add: handleSubmit_def FormSchema_def Let_def not_le split: option.splits)

lemma handleSubmit_passes:
  "passes_validation m q \<Longrightarrow> handleSubmit p response (m, w) =
     (m\<lparr>quantity_error := None, isSubmitting := False, isSubmitted := True\<rparr>,
      (case response of
         Created i \<Rightarrow>
           w\<lparr>insert_requests := insert_requests w @
                [\<lparr>ins_project_id = p, ins_resource_id = resourceId m, ins_quantity = q,
                  ins_consumed = False\<rparr>],
             resource_allocations := resource_allocations w @
                [\<lparr>alloc_id = i, project_id = p, resource_id = resourceId m,
                  alloc_quantity = Some q, consumed = False\<rparr>],
             toasts := toasts w @
                [\<lparr>title = ''Resource added'',
                  description = [Str ''Resource has been added to the project''],
                  variant = None\<rparr>],
             onResourceAdded_calls := onResourceAdded_calls w + 1\<rparr>
       | Failed e \<Rightarrow>
           w\<lparr>insert_requests := insert_requests w @
                [\<lparr>ins_project_id = p, ins_resource_id = resourceId m, ins_quantity = q,
                  ins_consumed = False\<rparr>],
             console := console w @ [''Error adding resource:''],
             toasts := toasts w @
                [\<lparr>title = ''Error'',
                  description = [Str ''Failed to add resource to project''],
                  variant = Some ''destructive''\<rparr>]\<rparr>))"
  by (cases response)
     (auto simp: passes_validation_def handleSubmit_cases onSubmit_def onSubmit_try_def
      insert_row_def toast_def console_error_def onResourceAdded_def Let_def)


subsection \<open>An invariant of the reachable states\<close>



subsection \<open>The examples, evaluated\<close>

lemma example_loaded_eq:
  "example_loaded =
     (mounted\<lparr>resources :=
          [cement\<lparr>allocated := Some 85, available := Some 15, status := ''Low Stock''\<rparr>,
           timber\<lparr>allocated := Some 0, available := Some 50, status := ''Available''\<rparr>],
        loading := False\<rparr>, initial_world example_allocations)"
  by (simp add: example_loaded_def fetchResources_def example_resources Let_def)

lemma example_selected_eq:
  "example_selected =
     (mounted\<lparr>resources :=
          [cement\<lparr>allocated := Some 85, available := Some 15, status := ''Low Stock''\<rparr>,
           timber\<lparr>allocated := Some 0, available := Some 50, status := ''Available''\<rparr>],
        loading := False, resourceId := ''r1'',
        selectedResource :=
          Some (timber\<lparr>allocated := Some 0, available := Some 50, status := ''Available''\<rparr>),
        availableQuantity := 50, form_quantity := Some 50\<rparr>,
      initial_world example_allocations)"
  by (simp add: example_selected_def example_loaded_eq selectionEffect_def
      field_onChange_def inputQuantity_def mounted_def cement_def timber_def js_or_def Let_def)

lemma example_passes: "passes_validation (fst example_selected) 50"
  by (simp add: example_selected_eq passes_validation_def mounted_def)

lemma example_selected_fields:
  "resourceId (fst example_selected) = ''r1''"
  "availableQuantity (fst example_selected) = 50"
  "loading (fst example_selected) = False"
  "insert_requests (snd example_selected) = []"
  "toasts (snd example_selected) = []"
  "resource_allocations (snd example_selected) = example_allocations"
  "onResourceAdded_calls (snd example_selected) = 0"
  by (simp_all add: example_selected_eq mounted_def initial_world_def)






subsection \<open>The store model computes the same values and only adds objects\<close>

lemma lookup_prefix: "prefix h h' \<Longrightarrow> lookup h a = Some v \<Longrightarrow> lookup h' a = Some v"
  by (auto simp: lookup_def prefix_def nth_append split: if_splits)

lemma get_resource_prefix:
  "prefix h h' \<Longrightarrow> get_resource h a = Some r \<Longrightarrow> get_resource h' a = Some r"
  by (auto simp: get_resource_def dest: lookup_prefix split: option.splits obj.splits)

lemma get_allocation_prefix:
  "prefix h h' \<Longrightarrow> get_allocation h a = Some x \<Longrightarrow> get_allocation h' a = Some x"
  by (auto simp: get_allocation_def dest: lookup_prefix split: option.splits obj.splits)

lemma get_array_prefix:
  "prefix h h' \<Longrightarrow> get_array h a = Some xs \<Longrightarrow> get_array h' a = Some xs"
  by (auto simp: get_array_def dest: lookup_prefix split: option.splits obj.splits)

lemma read_all_mono:
  assumes "\<And>a x. f a = Some x \<Longrightarrow> g a = Some x"
  shows "read_all f as = Some xs \<Longrightarrow> read_all g as = Some xs"
  by (induction as arbitrary: xs) (auto split: option.splits dest: assms)

lemma read_resources_prefix:
  assumes "prefix h h'" "read_resources h a = Some rs"
  shows "read_resources h' a = Some rs"
proof -
  from assms(2) obtain elems where e: "get_array h a = Some elems"
    and r: "read_all (get_resource h) elems = Some rs"
    by (auto simp: read_resources_def split: option.splits)
  from get_array_prefix [OF assms(1) e] have "get_array h' a = Some elems" .
  moreover from r have "read_all (get_resource h') elems = Some rs"
    by (rule read_all_mono [rotated]) (rule get_resource_prefix [OF assms(1)])
  ultimately show ?thesis by (simp add: read_resources_def)
qed

lemma read_allocations_prefix:
  assumes "prefix h h'" "read_allocations h a = Some xs"
  shows "read_allocations h' a = Some xs"
proof -
  from assms(2) obtain elems where e: "get_array h a = Some elems"
    and r: "read_all (get_allocation h) elems = Some xs"
    by (auto simp: read_allocations_def split: option.splits)
  from get_array_prefix [OF assms(1) e] have "get_array h' a = Some elems" .
  moreover from r have "read_all (get_allocation h') elems = Some xs"
    by (rule read_all_mono [rotated]) (rule get_allocation_prefix [OF assms(1)])
  ultimately show ?thesis by (simp add: read_allocations_def)
qed

lemma get_array_new: "get_array (h @ [ArrayObj xs]) (length h) = Some xs"
  by (simp add: get_array_def lookup_def)

lemma get_resource_new: "get_resource (h @ [ResourceObj r]) (length h) = Some r"
  by (simp add: get_resource_def lookup_def)

lemma filter_allocations_reads:
  "read_all (get_allocation h) elems = Some xs \<Longrightarrow>
     \<exists>kept. filter_allocations h r elems = Some kept
       \<and> read_all (get_allocation h) kept
           = Some (filter (\<lambda>alloc. resource_id alloc = id' r \<and> \<not> consumed alloc) xs)"
  by (induction elems arbitrary: xs) (auto split: option.splits)

lemma reduce_quantity_reads:
  "read_all (get_allocation h) kept = Some xs \<Longrightarrow>
     reduce_quantity h acc kept
       = Some (foldl (\<lambda>sum alloc. js_add sum (js_or (alloc_quantity alloc) 0)) acc xs)"
  by (induction kept arbitrary: xs acc) (auto split: option.splits)

lemma filter_available_reads:
  "read_all (get_resource h) elems = Some xs \<Longrightarrow>
     \<exists>kept. filter_available h elems = Some kept
       \<and> read_all (get_resource h) kept = Some (filter (\<lambda>r. js_positive (available r)) xs)"
  by (induction elems arbitrary: xs) (auto split: option.splits)


lemma withAvailability_h_reads:
  assumes r: "get_resource h ra = Some r" and a: "read_allocations h allocationsData = Some xs"
  shows "\<exists>a' h'. withAvailability_h allocationsData ra h = Some (a', h') \<and> prefix h h'
     \<and> get_resource h' a' = Some (withAvailability xs r)"
proof -
  from a obtain elems where e: "get_array h allocationsData = Some elems"
    and rd: "read_all (get_allocation h) elems = Some xs"
    by (auto simp: read_allocations_def split: option.splits)
  from filter_allocations_reads [OF rd, of r] obtain kept where
    k: "filter_allocations h r elems = Some kept"
    and kr: "read_all (get_allocation h) kept = Some (allocationsOf xs r)"
    by (auto simp: allocationsOf_def)
  let ?h1 = "h @ [ArrayObj kept]"
  have p1: "prefix h ?h1" by simp
  from kr have "read_all (get_allocation ?h1) kept = Some (allocationsOf xs r)"
    by (rule read_all_mono [rotated]) (rule get_allocation_prefix [OF p1])
  from reduce_quantity_reads [OF this, of 0]
  have red: "reduce_quantity ?h1 0 kept = Some (allocatedQuantity xs r)"
    by (simp add: allocatedQuantity_def)
  let ?r' = "withAvailability xs r"
  have "withAvailability_h allocationsData ra h = Some (length ?h1, ?h1 @ [ResourceObj ?r'])"
    using r e k red
    by (simp add: withAvailability_h_def new_obj_def get_array_new withAvailability_def
        availableQty_def)
  moreover have "prefix h (?h1 @ [ResourceObj ?r'])" by simp
  moreover have "get_resource (?h1 @ [ResourceObj ?r']) (length ?h1) = Some ?r'"
    by (rule get_resource_new)
  ultimately show ?thesis by blast
qed

lemma map_h_reads:
  "read_all (get_resource h) elems = Some rs \<Longrightarrow> read_allocations h allocationsData = Some xs \<Longrightarrow>
     \<exists>out h'. map_h allocationsData elems h = Some (out, h') \<and> prefix h h'
       \<and> read_all (get_resource h') out = Some (map (withAvailability xs) rs)"
proof (induction elems arbitrary: h rs)
  case Nil
  then show ?case by simp
next
  case (Cons ra ras)
  from Cons.prems(1) obtain r rs' where r: "get_resource h ra = Some r"
    and rest: "read_all (get_resource h) ras = Some rs'" and rs: "rs = r # rs'"
    by (auto split: option.splits)
  from withAvailability_h_reads [OF r Cons.prems(2)] obtain a' h1 where
    w: "withAvailability_h allocationsData ra h = Some (a', h1)" and p1: "prefix h h1"
    and g: "get_resource h1 a' = Some (withAvailability xs r)" by blast
  from rest have rest1: "read_all (get_resource h1) ras = Some rs'"
    by (rule read_all_mono [rotated]) (rule get_resource_prefix [OF p1])
  from read_allocations_prefix [OF p1 Cons.prems(2)]
  have al1: "read_allocations h1 allocationsData = Some xs" .
  from Cons.IH [OF rest1 al1] obtain out h2 where
    m: "map_h allocationsData ras h1 = Some (out, h2)" and p2: "prefix h1 h2"
    and o: "read_all (get_resource h2) out = Some (map (withAvailability xs) rs')" by blast
  from get_resource_prefix [OF p2 g] have g2: "get_resource h2 a' = Some (withAvailability xs r)" .
  have "map_h allocationsData (ra # ras) h = Some (a' # out, h2)" using w m by simp
  moreover from p1 p2 have "prefix h h2" by (rule prefix_order.trans)
  moreover have "read_all (get_resource h2) (a' # out) = Some (map (withAvailability xs) rs)"
    using g2 o rs by simp
  ultimately show ?case by blast
qed

lemma availableResources_h_reads:
  assumes r: "read_resources h resourcesData = Some rs"
    and a: "read_allocations h allocationsData = Some xs"
  shows "\<exists>out h'. availableResources_h resourcesData allocationsData h = Some (out, h')
     \<and> prefix h h' \<and> read_resources h' out = Some (availableResources rs xs)"
proof -
  from r obtain elems where e: "get_array h resourcesData = Some elems"
    and rd: "read_all (get_resource h) elems = Some rs"
    by (auto simp: read_resources_def split: option.splits)
  from map_h_reads [OF rd a] obtain out h1 where
    m: "map_h allocationsData elems h = Some (out, h1)" and p1: "prefix h h1"
    and o: "read_all (get_resource h1) out = Some (resourcesWithAvailability rs xs)"
    by (auto simp: resourcesWithAvailability_def)
  let ?h2 = "h1 @ [ArrayObj out]"
  have p2: "prefix h1 ?h2" by simp
  from o have "read_all (get_resource ?h2) out = Some (resourcesWithAvailability rs xs)"
    by (rule read_all_mono [rotated]) (rule get_resource_prefix [OF p2])
  from filter_available_reads [OF this] obtain kept where
    k: "filter_available ?h2 out = Some kept"
    and kr: "read_all (get_resource ?h2) kept = Some (availableResources rs xs)"
    by (auto simp: availableResources_def)
  let ?h3 = "?h2 @ [ArrayObj kept]"
  have p3: "prefix ?h2 ?h3" by simp
  have "availableResources_h resourcesData allocationsData h = Some (length ?h2, ?h3)"
    using e m k by (simp add: availableResources_h_def new_obj_def get_array_new)
  moreover have "prefix h ?h3"
    using p1 by (auto simp: prefix_def)
  moreover have "read_resources ?h3 (length ?h2) = Some (availableResources rs xs)"
  proof -
    from kr have "read_all (get_resource ?h3) kept = Some (availableResources rs xs)"
      by (rule read_all_mono [rotated]) (rule get_resource_prefix [OF p3])
    then show ?thesis
      using get_array_new [of ?h2 kept] by (simp add: read_resources_def)
  qed
  ultimately show ?thesis by blast
qed

section \<open>Claims about the availability computation\<close>

text \<open>
  C1 (as amended). For every resource \<open>r\<close> and every list of allocation rows for which
  the sums stay finite, the allocated total that the code computes is the sum, accumulated
  from left to right in the double arithmetic of the program, of the quantity fields of
  exactly the rows whose \<open>resource_id\<close> is the identifier of \<open>r\<close> and whose \<open>consumed\<close>
  flag is false; the available quantity is \<open>quantity r\<close> minus that total in the same
  arithmetic; and every element of the mapped list carries these two numbers. Whenever the
  quantity of the resource and the quantities of its outstanding allocations are whole
  numbers from 0 to \<open>2^53\<close> with an exact sum of at most \<open>2^53\<close>, the total is the exact
  sum and the available quantity the exact difference.
\<close>

theorem C1_allocated_in_program_arithmetic:
  "(stays_finite r allocationsData \<longrightarrow>
      allocatedQuantity allocationsData r
        = foldl (\<lambda>sum alloc. js_add sum (quantityField alloc)) 0
            (filter (\<lambda>alloc. resource_id alloc = id' r \<and> consumed alloc = False)
               allocationsData)
      \<and> availableQty allocationsData r
          = js_sub (quantity r) (allocatedQuantity allocationsData r))
   \<and> (list_all (\<lambda>r. stays_finite r allocationsData) resourcesData \<longrightarrow>
        resourcesWithAvailability resourcesData allocationsData
          = map (\<lambda>r. r\<lparr>allocated := Some (allocatedQuantity allocationsData r),
                       available := Some (availableQty allocationsData r),
                       status := stockStatus (availableQty allocationsData r) (quantity r)\<rparr>)
              resourcesData)
   \<and> (exact_range r allocationsData \<longrightarrow>
        allocatedQuantity allocationsData r = spec_allocated r allocationsData
        \<and> availableQty allocationsData r = quantity r - spec_allocated r allocationsData)
   \<and> (list_all (\<lambda>r. exact_range r allocationsData) resourcesData \<longrightarrow>
        resourcesWithAvailability resourcesData allocationsData
          = map (\<lambda>r. r\<lparr>allocated := Some (spec_allocated r allocationsData),
                       available := Some (quantity r - spec_allocated r allocationsData),
                       status := stockStatus (quantity r - spec_allocated r allocationsData)
                                   (quantity r)\<rparr>)
              resourcesData)"
proof -
  have fold: "allocatedQuantity allocationsData r
     = foldl (\<lambda>sum alloc. js_add sum (quantityField alloc)) 0
         (filter (\<lambda>alloc. resource_id alloc = id' r \<and> consumed alloc = False) allocationsData)"
    by (simp add: allocatedQuantity_fold allocationsOf_def)
  have sub: "availableQty allocationsData r
     = js_sub (quantity r) (allocatedQuantity allocationsData r)"
    by (simp add: availableQty_def)
  have mapped: "resourcesWithAvailability resourcesData allocationsData
       = map (\<lambda>r. r\<lparr>allocated := Some (allocatedQuantity allocationsData r),
                    available := Some (availableQty allocationsData r),
                    status := stockStatus (availableQty allocationsData r) (quantity r)\<rparr>)
           resourcesData"
    by (simp add: resourcesWithAvailability_def withAvailability_def fun_eq_iff)
  have one: "exact_range r allocationsData \<longrightarrow>
        allocatedQuantity allocationsData r = spec_allocated r allocationsData
        \<and> availableQty allocationsData r = quantity r - spec_allocated r allocationsData"
    using exact_range_allocated by blast
  have exact: "list_all (\<lambda>r. exact_range r allocationsData) resourcesData \<longrightarrow>
        resourcesWithAvailability resourcesData allocationsData
          = map (\<lambda>r. r\<lparr>allocated := Some (spec_allocated r allocationsData),
                       available := Some (quantity r - spec_allocated r allocationsData),
                       status := stockStatus (quantity r - spec_allocated r allocationsData)
                                   (quantity r)\<rparr>)
              resourcesData"
  proof
    assume "list_all (\<lambda>r. exact_range r allocationsData) resourcesData"
    then have "\<forall>x \<in> set resourcesData. exact_range x allocationsData"
      by (simp add: list_all_iff)
    then show "resourcesWithAvailability resourcesData allocationsData
          = map (\<lambda>r. r\<lparr>allocated := Some (spec_allocated r allocationsData),
                       available := Some (quantity r - spec_allocated r allocationsData),
                       status := stockStatus (quantity r - spec_allocated r allocationsData)
                                   (quantity r)\<rparr>)
              resourcesData"
      unfolding mapped by (intro map_cong refl) (simp add: exact_range_allocated)
  qed
  show ?thesis by (intro conjI impI fold sub mapped one [rule_format] exact [rule_format])
qed

theorem C1_allocated_in_program_arithmetic_witness:
  "stays_finite cement example_allocations
   \<and> list_all (\<lambda>r. stays_finite r example_allocations) [cement, scaffold, timber]
   \<and> exact_range cement example_allocations
   \<and> list_all (\<lambda>r. exact_range r example_allocations) [cement, scaffold, timber]
   \<and> allocatedQuantity example_allocations cement = 85
   \<and> availableQty example_allocations cement = 15
   \<and> map available (resourcesWithAvailability [cement, scaffold, timber] example_allocations)
       = [Some 15, Some 0, Some 50]"
proof -
  have sp: "spec_allocated cement example_allocations = 85"
    "spec_allocated scaffold example_allocations = 10"
    "spec_allocated timber example_allocations = 0"
    by (simp_all add: spec_allocated_def example_allocations_def cement_def scaffold_def
        timber_def quantityField_def)
  have q: "quantity cement = 100" "quantity scaffold = 10" "quantity timber = 50"
    by (simp_all add: cement_def scaffold_def timber_def)
  have all: "list_all (\<lambda>r. exact_range r example_allocations) [cement, scaffold, timber]"
    by (simp add: exact_range_def sp q safe_whole_def)
       (simp add: allocationsOf_def example_allocations_def cement_def scaffold_def timber_def
        quantityField_def safe_whole_def)
  then have c: "exact_range cement example_allocations" by simp
  have fin: "list_all (\<lambda>r. stays_finite r example_allocations) [cement, scaffold, timber]"
    by (simp add: stays_finite_def finite_result_def allocatedQuantity_def allocationsOf_def
        example_allocations_def cement_def scaffold_def timber_def quantityField_def
        js_or_def js_add_def fl_numeral fl_zero)
  then have fc: "stays_finite cement example_allocations" by simp
  note c1 = C1_allocated_in_program_arithmetic
         [where allocationsData = example_allocations and r = cement
            and resourcesData = "[cement, scaffold, timber]"]
  from c1 c have "allocatedQuantity example_allocations cement
      = spec_allocated cement example_allocations"
    "availableQty example_allocations cement
      = quantity cement - spec_allocated cement example_allocations"
    by blast+
  then have a: "allocatedQuantity example_allocations cement = 85"
    "availableQty example_allocations cement = 15"
    by (simp_all add: sp q)
  from c1 all have "resourcesWithAvailability [cement, scaffold, timber] example_allocations
      = map (\<lambda>r. r\<lparr>allocated := Some (spec_allocated r example_allocations),
                   available := Some (quantity r - spec_allocated r example_allocations),
                   status := stockStatus (quantity r - spec_allocated r example_allocations)
                               (quantity r)\<rparr>)
          [cement, scaffold, timber]"
    by blast
  then have "map available (resourcesWithAvailability [cement, scaffold, timber]
      example_allocations) = [Some 15, Some 0, Some 50]"
    by (simp add: sp q)
  with fc fin c all a show ?thesis by simp
qed

text \<open>
  The claim as it was stated takes the exact sum. With a quantity of \<open>2^53 + 2\<close> and
  allocations of \<open>2^53\<close>, 1 and 1 the exact sum is the whole quantity and nothing is
  available, but the program's total stays at \<open>2^53\<close>, it computes 2 available units, and
  the resource is offered.
\<close>

theorem C1_exact_sum_counterexample:
  "stays_finite bulk bulk_allocations
   \<and> spec_allocated bulk bulk_allocations = 9007199254740994
   \<and> allocatedQuantity bulk_allocations bulk = 9007199254740992
   \<and> allocatedQuantity bulk_allocations bulk \<noteq> spec_allocated bulk bulk_allocations
   \<and> quantity bulk - spec_allocated bulk bulk_allocations = 0
   \<and> availableQty bulk_allocations bulk = 2
   \<and> map id' (availableResources [bulk] bulk_allocations) = [''r9'']"
proof -
  have sp: "spec_allocated bulk bulk_allocations = 9007199254740994"
    by (simp add: spec_allocated_def bulk_allocations_def bulk_def quantityField_def)
  have q: "quantity bulk = 9007199254740994" by (simp add: bulk_def)
  have l: "map id' (availableResources [bulk] bulk_allocations) = [''r9'']"
    by (simp add: availableResources_filter_map bulk_available id_withAvailability)
       (simp add: bulk_def)
  have f: "stays_finite bulk bulk_allocations"
    by (simp add: stays_finite_def bulk_allocated finite_result_def q)
       (simp add: allocationsOf_def bulk_allocations_def bulk_def quantityField_def
        finite_result_def js_add_def fl_numeral fl_above_safe)
  from f sp q l show ?thesis by (simp add: bulk_allocated bulk_available)
qed



text \<open>
  C3. The output of the calculator is the input list restricted to the resources whose
  computed available quantity is strictly positive, each with its availability fields, in
  the order of the input: filtering the annotated list is the same as annotating the
  filtered input, and the identifiers of the output form a subsequence of those of the input.
\<close>

theorem C3_output_filtered_in_order:
  "availableResources resourcesData allocationsData
     = map (withAvailability allocationsData)
         (filter (\<lambda>r. 0 < availableQty allocationsData r) resourcesData)
   \<and> subseq (map id' (availableResources resourcesData allocationsData)) (map id' resourcesData)"
  by (simp add: availableResources_filter_map comp_def id_withAvailability subseq_map)

text \<open>
  C9. An allocation whose quantity is missing or zero contributes exactly 0 to the
  allocated total: the total is the left-to-right sum in which a missing quantity enters
  as 0, and it does not change when such an allocation is put anywhere into the list. The
  total is a number for every list of allocation rows.
\<close>

theorem C9_missing_quantity_counts_zero:
  "js_or None 0 = 0 \<and> js_or (Some 0) 0 = 0
   \<and> allocatedQuantity allocationsData r
       = foldl (\<lambda>sum alloc. js_add sum (case alloc_quantity alloc of None \<Rightarrow> 0 | Some q \<Rightarrow> q)) 0
           (allocationsOf allocationsData r)
   \<and> allocatedQuantity (xs @ alloc\<lparr>alloc_quantity := None\<rparr> # ys) r
       = allocatedQuantity (xs @ ys) r
   \<and> allocatedQuantity (xs @ alloc\<lparr>alloc_quantity := Some 0\<rparr> # ys) r
       = allocatedQuantity (xs @ ys) r"
proof -
  have skip: "allocatedQuantity (xs @ a # ys) r = allocatedQuantity (xs @ ys) r"
    if "quantityField a = 0" for a
    using fold_skips_zero [OF that, of "allocationsOf xs r" "allocationsOf ys r"]
    by (simp add: allocatedQuantity_fold allocationsOf_def)
  have "allocatedQuantity allocationsData r
       = foldl (\<lambda>sum alloc. js_add sum (case alloc_quantity alloc of None \<Rightarrow> 0 | Some q \<Rightarrow> q)) 0
           (allocationsOf allocationsData r)"
    by (simp add: allocatedQuantity_fold quantityField_def)
  moreover have "allocatedQuantity (xs @ alloc\<lparr>alloc_quantity := None\<rparr> # ys) r
       = allocatedQuantity (xs @ ys) r"
    by (rule skip) (simp add: quantityField_def)
  moreover have "allocatedQuantity (xs @ alloc\<lparr>alloc_quantity := Some 0\<rparr> # ys) r
       = allocatedQuantity (xs @ ys) r"
    by (rule skip) (simp add: quantityField_def)
  ultimately show ?thesis by (simp add: js_or_def)
qed

text \<open>
  C10. Every resource in the list that the calculator returns has a computed available
  quantity that is strictly positive, so the expression \<open>resource.available || resource.quantity\<close>
  evaluates to that available quantity and never to the total quantity.
\<close>

theorem C10_listed_bound_is_available:
  "r \<in> set (availableResources resourcesData allocationsData) \<Longrightarrow>
     \<exists>v. available r = Some v \<and> 0 < v \<and> js_or (available r) (quantity r) = v"
  by (auto simp: availableResources_def js_positive_def js_or_def split: option.splits)

theorem C10_listed_bound_is_available_witness:
  "cement\<lparr>allocated := Some 85, available := Some 15, status := ''Low Stock''\<rparr>
      \<in> set (availableResources [cement, scaffold, timber] example_allocations)
   \<and> js_or (available (cement\<lparr>allocated := Some 85, available := Some 15,
               status := ''Low Stock''\<rparr>))
        (quantity (cement\<lparr>allocated := Some 85, available := Some 15,
               status := ''Low Stock''\<rparr>)) = 15"
proof -
  have mem: "cement\<lparr>allocated := Some 85, available := Some 15, status := ''Low Stock''\<rparr>
      \<in> set (availableResources [cement, scaffold, timber] example_allocations)"
    by (simp add: example_resources)
  from C10_listed_bound_is_available [OF mem] mem show ?thesis by auto
qed

section \<open>Claims about the submission\<close>



text \<open>
  C5. When a submission passes all checks (a resource is selected and the quantity is
  positive and at most \<open>availableQuantity\<close>, equality included), exactly one insert request
  is sent, with \<open>consumed = false\<close> and exactly the given project, resource and quantity.
  When the store accepts it, exactly that one row is added to the table and the callback
  \<open>onResourceAdded\<close> runs exactly once; when the insert fails, no row is added and the
  callback does not run.
\<close>

theorem C5_one_allocation_persisted:
  "passes_validation m q \<Longrightarrow>
     (case handleSubmit p response (m, w) of (m', w') \<Rightarrow>
        insert_requests w' = insert_requests w @
          [\<lparr>ins_project_id = p, ins_resource_id = resourceId m, ins_quantity = q,
            ins_consumed = False\<rparr>]
        \<and> (case response of
             Created i \<Rightarrow>
               resource_allocations w' = resource_allocations w @
                 [\<lparr>alloc_id = i, project_id = p, resource_id = resourceId m,
                   alloc_quantity = Some q, consumed = False\<rparr>]
               \<and> onResourceAdded_calls w' = onResourceAdded_calls w + 1
           | Failed e \<Rightarrow>
               resource_allocations w' = resource_allocations w
               \<and> onResourceAdded_calls w' = onResourceAdded_calls w))"
  by (cases response) (simp_all add: handleSubmit_passes)

theorem C5_one_allocation_persisted_witness:
  "passes_validation (fst example_selected) 50
   \<and> availableQuantity (fst example_selected) = 50
   \<and> insert_requests (snd example_submitted)
       = [\<lparr>ins_project_id = ''p1'', ins_resource_id = ''r1'', ins_quantity = 50,
           ins_consumed = False\<rparr>]
   \<and> resource_allocations (snd example_submitted)
       = example_allocations @
           [\<lparr>alloc_id = ''a9'', project_id = ''p1'', resource_id = ''r1'',
             alloc_quantity = Some 50, consumed = False\<rparr>]
   \<and> onResourceAdded_calls (snd example_submitted) = 1
   \<and> onResourceAdded_calls (snd (handleSubmit ''p1'' (Failed ''timeout'') example_selected)) = 0"
proof -
  from C5_one_allocation_persisted [OF example_passes, where p = "''p1''"
         and response = "Created ''a9''" and w = "snd example_selected"]
       C5_one_allocation_persisted [OF example_passes, where p = "''p1''"
         and response = "Failed ''timeout''" and w = "snd example_selected"]
  show ?thesis
    using example_passes
    by (simp add: example_selected_fields example_submitted_def split_beta)
qed

text \<open>
  C8. When a submission passes the checks and the insert fails, the failure is shown as
  the generic error notification, exactly one request was sent (no retry), nothing is
  written to the table, the callback does not run, the state of the form is kept, and the
  submit button is enabled again once the fetch has finished. The submitting indicator is
  false after every submission attempt, whether it succeeds, fails or is rejected.
\<close>

theorem C8_failure_reported_without_retry:
  "(passes_validation m q \<longrightarrow>
     (case handleSubmit p (Failed e) (m, w) of (m', w') \<Rightarrow>
        toasts w' = toasts w @
          [\<lparr>title = ''Error'', description = [Str ''Failed to add resource to project''],
            variant = Some ''destructive''\<rparr>]
        \<and> length (insert_requests w') = length (insert_requests w) + 1
        \<and> resource_allocations w' = resource_allocations w
        \<and> onResourceAdded_calls w' = onResourceAdded_calls w
        \<and> m' = m\<lparr>quantity_error := None, isSubmitting := False, isSubmitted := True\<rparr>
        \<and> submitDisabled m' = loading m
        \<and> submit_outcome p (Failed e) (m, w) = Some PersistenceError))
   \<and> isSubmitting (fst (handleSubmit p response (m, w))) = False"
proof -
  have "isSubmitting (fst (handleSubmit p response (m, w))) = False"
    by (simp add: handleSubmit_cases split: option.splits)
  moreover have "passes_validation m q \<Longrightarrow>
      submit_outcome p (Failed e) (m, w) = Some PersistenceError"
    by (simp add: submit_outcome_def handleSubmit_passes toast_error_def)
  moreover have "passes_validation m q \<Longrightarrow>
      submitDisabled (m\<lparr>quantity_error := None, isSubmitting := False,
         isSubmitted := True\<rparr>) = loading m"
    by (auto simp: submitDisabled_def passes_validation_def)
  ultimately show ?thesis
    by (simp add: handleSubmit_passes)
qed

theorem C8_failure_reported_without_retry_witness:
  "passes_validation (fst example_selected) 50
   \<and> toasts (snd (handleSubmit ''p1'' (Failed ''timeout'') example_selected))
       = [\<lparr>title = ''Error'', description = [Str ''Failed to add resource to project''],
           variant = Some ''destructive''\<rparr>]
   \<and> length (insert_requests (snd (handleSubmit ''p1'' (Failed ''timeout'') example_selected))) = 1
   \<and> resource_allocations (snd (handleSubmit ''p1'' (Failed ''timeout'') example_selected))
       = example_allocations
   \<and> submitDisabled (fst (handleSubmit ''p1'' (Failed ''timeout'') example_selected)) = False
   \<and> isSubmitting (fst (handleSubmit ''p1'' (Failed ''timeout'') example_selected)) = False
   \<and> isSubmitting (fst example_submitted) = False"
proof -
  from C8_failure_reported_without_retry [where m = "fst example_selected" and q = 50
         and p = "''p1''" and e = "''timeout''" and w = "snd example_selected"
         and response = "Failed ''timeout''"]
       C8_failure_reported_without_retry [where m = "fst example_selected" and q = 50
         and p = "''p1''" and e = "''timeout''" and w = "snd example_selected"
         and response = "Created ''a9''"]
  show ?thesis
    using example_passes
    by (simp add: example_selected_fields example_submitted_def split_beta)
qed

section \<open>The claim about the selection\<close>


section \<open>The claim about purity\<close>

text \<open>
  C7. Run on a store in which \<open>resourcesData\<close> and \<open>allocationsData\<close> are arrays of resource
  and allocation objects, the availability computation returns, every object that was in the
  store before (the two input arrays and their elements among them) is unchanged afterwards,
  and the returned array holds exactly the value of the function \<open>availableResources\<close> of
  the two inputs. Run a second time on the resulting store, it returns an array with the
  same contents as the first, and again changes nothing that existed.
\<close>

theorem C7_same_output_inputs_unchanged:
  assumes r: "read_resources h resourcesData = Some rs"
    and a: "read_allocations h allocationsData = Some xs"
  shows "\<exists>out h'. availableResources_h resourcesData allocationsData h = Some (out, h')
     \<and> take (length h) h' = h
     \<and> read_resources h' resourcesData = Some rs
     \<and> read_allocations h' allocationsData = Some xs
     \<and> read_resources h' out = Some (availableResources rs xs)
     \<and> (\<exists>out2 h2. availableResources_h resourcesData allocationsData h' = Some (out2, h2)
           \<and> take (length h') h2 = h'
           \<and> read_resources h2 out2 = read_resources h' out)"
proof -
  from availableResources_h_reads [OF r a] obtain out h' where
    1: "availableResources_h resourcesData allocationsData h = Some (out, h')"
    and p: "prefix h h'" and o: "read_resources h' out = Some (availableResources rs xs)"
    by blast
  from read_resources_prefix [OF p r] have r': "read_resources h' resourcesData = Some rs" .
  from read_allocations_prefix [OF p a] have a': "read_allocations h' allocationsData = Some xs" .
  from availableResources_h_reads [OF r' a'] obtain out2 h2 where
    2: "availableResources_h resourcesData allocationsData h' = Some (out2, h2)"
    and p2: "prefix h' h2" and o2: "read_resources h2 out2 = Some (availableResources rs xs)"
    by blast
  from p have "take (length h) h' = h" by (auto simp: prefix_def)
  moreover from p2 have "take (length h') h2 = h'" by (auto simp: prefix_def)
  ultimately show ?thesis using 1 2 r' a' o o2 by simp
qed

theorem C7_same_output_inputs_unchanged_witness:
  "read_resources example_heap 8 = Some [cement, scaffold, timber]
   \<and> read_allocations example_heap 9 = Some example_allocations
   \<and> (\<exists>out h'. availableResources_h 8 9 example_heap = Some (out, h')
         \<and> take (length example_heap) h' = example_heap
         \<and> read_resources h' out
             = Some [cement\<lparr>allocated := Some 85, available := Some 15, status := ''Low Stock''\<rparr>,
                     timber\<lparr>allocated := Some 0, available := Some 50, status := ''Available''\<rparr>]
         \<and> (\<exists>out2 h2. availableResources_h 8 9 h' = Some (out2, h2)
               \<and> read_resources h2 out2 = read_resources h' out))"
proof -
  have r: "read_resources example_heap 8 = Some [cement, scaffold, timber]"
    by (simp add: example_heap_def example_allocations_def read_resources_def get_array_def
        get_resource_def lookup_def)
  have a: "read_allocations example_heap 9 = Some example_allocations"
    by (simp add: example_heap_def example_allocations_def read_allocations_def get_array_def
        get_allocation_def lookup_def)
  from C7_same_output_inputs_unchanged [OF r a] r a show ?thesis
    by (simp add: example_resources) blast
qed

end
